theory Spec2Isabelle
  imports Main
begin

section \<open>Values shared by the server modules\<close>

text \<open>
  JSON values as they are written to a response or read from a request body.  An object
  is a list of key/value pairs in property order.
\<close>

datatype json =
    JNull
  | JBool bool
  | JNum int
  | JStr string
  | JArr "json list"
  | JObj "(string \<times> json) list"

text \<open>
  The object literal handed to \<^verbatim>\<open>res.json\<close>: a property whose value is
  \<^verbatim>\<open>undefined\<close> (here \<open>None\<close>) is not serialised.
\<close>

fun props :: "(string \<times> json option) list \<Rightarrow> (string \<times> json) list" where
  "props [] = []"
| "props ((k, None) # kvs) = props kvs"
| "props ((k, Some v) # kvs) = (k, v) # props kvs"

definition obj :: "(string \<times> json option) list \<Rightarrow> json" where
  "obj kvs = JObj (props kvs)"

text \<open>
  The \<^verbatim>\<open>code\<close> property of an error is a number for MongoDB server errors and a
  string for Node system errors.
\<close>

datatype err_code = NumCode int | StrCode string

text \<open>
  An error value as the handlers see it: every property the code reads, each possibly
  \<^verbatim>\<open>undefined\<close>.  \<open>keyPattern\<close> lists the keys of the object in enumeration order;
  \<open>errors\<close> lists the entries of the object, each value with its own optional message.
\<close>

record js_error =
  name :: "string option"
  message :: "string option"
  stack :: "string option"
  code :: "err_code option"
  keyPattern :: "string list option"
  errors :: "(string \<times> string option) list option"
  statusCode :: "int option"

text \<open>
  An error made by \<^verbatim>\<open>new Error(msg)\<close> or raised by the runtime: a name, a message
  and a stack that starts with both.
\<close>

definition plain_error :: "string \<Rightarrow> string \<Rightarrow> js_error" where
  "plain_error nm msg =
     \<lparr> name = Some nm, message = Some msg, stack = Some (nm @ '': '' @ msg),
       code = None, keyPattern = None, errors = None, statusCode = None \<rparr>"

text \<open>The environment variables the server reads.\<close>

record env =
  NODE_ENV :: "string option"
  JWT_SECRET :: "string option"
  JWT_EXPIRE :: "string option"

text \<open>What a handler does with a request: answer it, pass an error on, or throw.\<close>

datatype reply =
    Responded int json
  | Passed js_error
  | Crashed js_error

section \<open>Error handler middleware\<close>

record request_info =
  originalUrl :: "string option"
  http_method :: "string option"
  ip :: "string option"

record log_entry =
  log_message :: "string option"
  log_stack :: "string option"
  log_url :: "string option"
  log_method :: "string option"
  log_ip :: "string option"

definition json_str :: "string option \<Rightarrow> json option" where
  "json_str s = map_option JStr s"

text \<open>\<^verbatim>\<open>`${field} already exists`\<close>: an undefined field prints as the word undefined.\<close>

definition template_str :: "string option \<Rightarrow> string" where
  "template_str s = (case s of None \<Rightarrow> ''undefined'' | Some t \<Rightarrow> t)"

text \<open>\<^verbatim>\<open>Object.keys(o)[0]\<close>, for an object given by its keys.\<close>

definition first_key :: "string list \<Rightarrow> string option" where
  "first_key ks = (case ks of [] \<Rightarrow> None | k # _ \<Rightarrow> Some k)"

text \<open>An array element that is undefined is serialised as null.\<close>

definition message_elem :: "string \<times> string option \<Rightarrow> json" where
  "message_elem e = (case snd e of None \<Rightarrow> JNull | Some m \<Rightarrow> JStr m)"

text \<open>\<^verbatim>\<open>err.statusCode || 500\<close> and \<^verbatim>\<open>err.message || 'Server Error'\<close>.\<close>

definition status_or_500 :: "int option \<Rightarrow> int" where
  "status_or_500 c = (case c of None \<Rightarrow> 500 | Some n \<Rightarrow> if n = 0 then 500 else n)"

definition message_or_default :: "string option \<Rightarrow> string" where
  "message_or_default m = (case m of None \<Rightarrow> ''Server Error'' | Some s \<Rightarrow> if s = [] then ''Server Error'' else s)"

definition errorHandler_log :: "request_info \<Rightarrow> js_error \<Rightarrow> log_entry" where
  "errorHandler_log req err =
     \<lparr> log_message = message err, log_stack = stack err, log_url = originalUrl req,
       log_method = http_method req, log_ip = ip req \<rparr>"

definition errorHandler_reply :: "env \<Rightarrow> js_error \<Rightarrow> reply" where
  "errorHandler_reply e err =
     (if name err = Some ''CastError'' then
        Responded 400 (obj [(''error'', Some (JStr ''Invalid ID format'')),
                            (''details'', json_str (message err))])
      else if code err = Some (NumCode 11000) then
        (case keyPattern err of
           None \<Rightarrow> Crashed (plain_error ''TypeError'' ''Cannot convert undefined or null to object'')
         | Some ks \<Rightarrow>
             Responded 400 (obj [(''error'', Some (JStr ''Duplicate field value'')),
                                 (''details'', Some (JStr (template_str (first_key ks) @ '' already exists'')))]))
      else if name err = Some ''ValidationError'' then
        (case errors err of
           None \<Rightarrow> Crashed (plain_error ''TypeError'' ''Cannot convert undefined or null to object'')
         | Some es \<Rightarrow>
             Responded 400 (obj [(''error'', Some (JStr ''Validation error'')),
                                 (''details'', Some (JArr (map message_elem es)))]))
      else if name err = Some ''JsonWebTokenError'' then
        Responded 401 (obj [(''error'', Some (JStr ''Invalid token'')),
                            (''details'', json_str (message err))])
      else if name err = Some ''TokenExpiredError'' then
        Responded 401 (obj [(''error'', Some (JStr ''Token expired'')),
                            (''details'', json_str (message err))])
      else
        Responded (status_or_500 (statusCode err))
          (obj [(''error'', Some (JStr (message_or_default (message err)))),
                (''stack'', if NODE_ENV e = Some ''development'' then json_str (stack err) else None)]))"

definition errorHandler :: "env \<Rightarrow> request_info \<Rightarrow> js_error \<Rightarrow> log_entry list \<times> reply" where
  "errorHandler e req err = ([errorHandler_log req err], errorHandler_reply e err)"

section \<open>Authentication utilities\<close>

text \<open>
  A JavaScript argument that may be \<^verbatim>\<open>undefined\<close> or \<^verbatim>\<open>null\<close> instead of
  the value the caller should pass.
\<close>

datatype 'a js_ref = JsUndefined | JsNull | JsValue 'a

definition typeof :: "string js_ref \<Rightarrow> string" where
  "typeof r = (case r of JsUndefined \<Rightarrow> ''undefined'' | JsNull \<Rightarrow> ''object'' | JsValue _ \<Rightarrow> ''string'')"

text \<open>
  Modelled from the spec: the User schema (models/User.js) is not among the sources.  The
  spec gives a user a username, an email and a role; \<open>user_id\<close> is the document
  identifier as a string, what both \<^verbatim>\<open>_id\<close> and \<^verbatim>\<open>id\<close> render to.  The password hash
  is left out: the lookups of the code exclude it.
\<close>

record user =
  user_id :: "string option"
  email :: "string option"
  username :: "string option"
  role :: "string option"

text \<open>The payload \<^verbatim>\<open>{ id: user._id, email: user.email }\<close> and the decoded claims.\<close>

record token_payload =
  payload_id :: "string option"
  payload_email :: "string option"

record token_claims =
  claim_id :: "string option"
  claim_email :: "string option"
  iat :: "int option"
  nbf :: "int option"
  exp :: "int option"

text \<open>
  The libraries are parameters of the model.  \<open>jwt_sign payload secret expiresIn\<close> and
  \<open>jwt_verify token secret\<close> stand for \<^verbatim>\<open>jwt.sign\<close> and \<^verbatim>\<open>jwt.verify\<close> of
  jsonwebtoken, \<open>bcrypt_compare password hash\<close> for \<^verbatim>\<open>bcrypt.compare\<close> of bcryptjs;
  \<open>Inl\<close> is the error the call throws or rejects with.
\<close>

type_synonym jwt_sign = "token_payload \<Rightarrow> string option \<Rightarrow> string \<Rightarrow> js_error + string"
type_synonym jwt_verify = "string js_ref \<Rightarrow> string option \<Rightarrow> js_error + token_claims"
type_synonym bcrypt_compare = "string js_ref \<Rightarrow> string js_ref \<Rightarrow> js_error + bool"

text \<open>\<^verbatim>\<open>process.env.JWT_EXPIRE || '24h'\<close>\<close>

definition expiresIn :: "env \<Rightarrow> string" where
  "expiresIn e = (case JWT_EXPIRE e of None \<Rightarrow> ''24h'' | Some s \<Rightarrow> if s = [] then ''24h'' else s)"

definition generateToken :: "jwt_sign \<Rightarrow> env \<Rightarrow> user js_ref \<Rightarrow> js_error + string" where
  "generateToken jwt_sign e usr =
     (case usr of
        JsUndefined \<Rightarrow>
          Inl (plain_error ''TypeError'' ''Cannot read properties of undefined (reading '_id')'')
      | JsNull \<Rightarrow>
          Inl (plain_error ''TypeError'' ''Cannot read properties of null (reading '_id')'')
      | JsValue u \<Rightarrow>
          jwt_sign \<lparr> payload_id = user_id u, payload_email = email u \<rparr> (JWT_SECRET e) (expiresIn e))"

definition verifyToken :: "jwt_verify \<Rightarrow> env \<Rightarrow> string js_ref \<Rightarrow> js_error + token_claims" where
  "verifyToken jwt_verify e token =
     (case jwt_verify token (JWT_SECRET e) of
        Inr decoded \<Rightarrow> Inr decoded
      | Inl error \<Rightarrow> Inl (plain_error ''Error'' ''Invalid token''))"

definition comparePassword :: "bcrypt_compare \<Rightarrow> string js_ref \<Rightarrow> string js_ref \<Rightarrow> js_error + bool" where
  "comparePassword bcrypt_compare password hash = bcrypt_compare password hash"

section \<open>Authentication middleware\<close>

text \<open>\<^verbatim>\<open>s.split(c)\<close>: the pieces between occurrences of \<open>c\<close>, empty pieces included.\<close>

fun split :: "char \<Rightarrow> string \<Rightarrow> string list" where
  "split c [] = [[]]"
| "split c (x # xs) =
     (if x = c then [] # split c xs
      else (case split c xs of [] \<Rightarrow> [[x]] | w # ws \<Rightarrow> (x # w) # ws))"

definition startsWith :: "string \<Rightarrow> string \<Rightarrow> bool" where
  "startsWith s p = (take (length p) s = p)"

text \<open>\<^verbatim>\<open>xs[1]\<close>, undefined when the array is shorter.\<close>

definition second :: "'a list \<Rightarrow> 'a option" where
  "second xs = (case xs of _ # y # _ \<Rightarrow> Some y | _ \<Rightarrow> None)"

text \<open>
  The token variable after the header check: it stays undefined unless the header is a
  non-empty string that starts with Bearer.
\<close>

definition header_token :: "string option \<Rightarrow> string option" where
  "header_token authorization =
     (case authorization of
        None \<Rightarrow> None
      | Some h \<Rightarrow> if h \<noteq> [] \<and> startsWith h ''Bearer'' then second (split CHR '' '' h) else None)"

text \<open>
  The calls the middleware makes, in order, and what it leaves behind: the response it
  sent (if any) and the user it stored on the request.
\<close>

datatype auth_event = VerifyCall string | LookupCall "string option" | NextCall

record auth_result =
  events :: "auth_event list"
  response :: "(int \<times> json) option"
  req_user :: "user option"

definition not_authorized :: "int \<times> json" where
  "not_authorized = (401, obj [(''error'', Some (JStr ''Not authorized to access this route''))])"

definition user_not_found :: "int \<times> json" where
  "user_not_found = (401, obj [(''error'', Some (JStr ''User not found''))])"

text \<open>
  \<open>findUser i\<close> is \<^verbatim>\<open>User.findById(i).select('-password')\<close>; \<open>next_throws\<close> is the
  error a synchronous failure of \<^verbatim>\<open>next()\<close> raises inside the try block, if any.
\<close>

definition protect ::
  "jwt_verify \<Rightarrow> (string option \<Rightarrow> js_error + user option) \<Rightarrow> js_error option \<Rightarrow> env
     \<Rightarrow> string option \<Rightarrow> auth_result" where
  "protect jwt_verify findUser next_throws e authorization =
     (case header_token authorization of
        None \<Rightarrow> \<lparr> events = [], response = Some not_authorized, req_user = None \<rparr>
      | Some token \<Rightarrow>
          if token = [] then \<lparr> events = [], response = Some not_authorized, req_user = None \<rparr>
          else
            (case verifyToken jwt_verify e (JsValue token) of
               Inl error \<Rightarrow>
                 \<lparr> events = [VerifyCall token], response = Some not_authorized, req_user = None \<rparr>
             | Inr decoded \<Rightarrow>
                 (case findUser (claim_id decoded) of
                    Inl error \<Rightarrow>
                      \<lparr> events = [VerifyCall token, LookupCall (claim_id decoded)],
                        response = Some not_authorized, req_user = None \<rparr>
                  | Inr None \<Rightarrow>
                      \<lparr> events = [VerifyCall token, LookupCall (claim_id decoded)],
                        response = Some user_not_found, req_user = None \<rparr>
                  | Inr (Some u) \<Rightarrow>
                      (case next_throws of
                         None \<Rightarrow>
                           \<lparr> events = [VerifyCall token, LookupCall (claim_id decoded), NextCall],
                             response = None, req_user = Some u \<rparr>
                       | Some error \<Rightarrow>
                           \<lparr> events = [VerifyCall token, LookupCall (claim_id decoded), NextCall],
                             response = Some not_authorized, req_user = Some u \<rparr>))))"

section \<open>Slug of a post\<close>

text \<open>
  Modelled from the spec: the Post schema and its slug hook (models/Post.js) are not
  among the sources, only their tests are.  The spec describes the slug as the title in
  lowercase with each run of non-alphanumeric characters collapsed to a single hyphen.
  \<open>lowercase\<close> maps an ASCII capital to its small letter.
\<close>

definition lowercase :: "char \<Rightarrow> char" where
  "lowercase c =
     (case map_of (zip ''ABCDEFGHIJKLMNOPQRSTUVWXYZ'' ''abcdefghijklmnopqrstuvwxyz'') c of
        None \<Rightarrow> c
      | Some l \<Rightarrow> l)"

text \<open>
  Modelled from the spec: the alphanumeric characters of a lowercased title, the ones a
  slug keeps.
\<close>

definition alphanumeric :: "char \<Rightarrow> bool" where
  "alphanumeric c = (c \<in> set ''abcdefghijklmnopqrstuvwxyz0123456789'')"

text \<open>
  Modelled from the spec: "non-alphanumeric runs collapsed to single hyphens".  The flag
  says that the character before was part of a run, whose hyphen is already written.
\<close>

fun collapse_runs :: "bool \<Rightarrow> string \<Rightarrow> string" where
  "collapse_runs in_run [] = []"
| "collapse_runs in_run (c # cs) =
     (if alphanumeric c then c # collapse_runs False cs
      else if in_run then collapse_runs True cs
      else CHR ''-'' # collapse_runs True cs)"

text \<open>
  Modelled from the spec: the slug derived from a title when a post is created, the
  missing hook of models/Post.js.
\<close>

definition slug_of_title :: "string \<Rightarrow> string" where
  "slug_of_title t = collapse_runs False (map lowercase t)"

section \<open>Post controllers\<close>

text \<open>
  Modelled from the spec: the Post schema (models/Post.js) is not among the sources.  The
  spec gives a post a title, a content, a derived slug, an optional category, a list of
  tags, a published flag, an author reference and creation and update timestamps.  The
  identifier, the author reference and the slug are strings, the timestamps are
  numbers; the other fields hold whatever value the store accepted, \<open>None\<close> when unset.
\<close>

record post =
  post_id :: string
  author :: string
  slug :: string
  title :: "json option"
  content :: "json option"
  category :: "json option"
  tags :: "json option"
  published :: "json option"
  createdAt :: int
  updatedAt :: int

text \<open>
  An update document: the paths to set with their values, in property order.  A property
  whose value is undefined is not part of it.
\<close>

type_synonym update_document = "(string \<times> json) list"

record store =
  posts :: "string \<rightharpoonup> post"
  users :: "string \<rightharpoonup> user"

text \<open>
  What the object-document mapper does besides reading and writing the store:
  \<open>find_error i\<close> is the error with which \<^verbatim>\<open>Post.findById(i)\<close> rejects, if it does;
  \<open>cast_path k v\<close> is the casting and validation of the value given for one path of an
  update (\<^verbatim>\<open>runValidators\<close>), giving the value to store or the error it rejects with;
  \<open>delete_error i\<close> is the error with which \<^verbatim>\<open>post.deleteOne()\<close> rejects, if it does;
  \<open>clock\<close> is the time of the write.
\<close>

record odm =
  find_error :: "string \<Rightarrow> js_error option"
  cast_path :: "string \<Rightarrow> json \<Rightarrow> js_error + json"
  delete_error :: "string \<Rightarrow> js_error option"
  clock :: int

definition findById :: "odm \<Rightarrow> store \<Rightarrow> string \<Rightarrow> js_error + post option" where
  "findById m st i = (case find_error m i of Some e \<Rightarrow> Inl e | None \<Rightarrow> Inr (posts st i))"

text \<open>The paths of an update are cast one by one; the first rejection is the result.\<close>

fun cast_update :: "(string \<Rightarrow> json \<Rightarrow> js_error + json) \<Rightarrow> update_document \<Rightarrow> js_error + update_document" where
  "cast_update c [] = Inr []"
| "cast_update c ((k, v) # kvs) =
     (case c k v of
        Inl e \<Rightarrow> Inl e
      | Inr v' \<Rightarrow> (case cast_update c kvs of Inl e \<Rightarrow> Inl e | Inr kvs' \<Rightarrow> Inr ((k, v') # kvs')))"

definition set_field :: "json option \<Rightarrow> json option \<Rightarrow> json option" where
  "set_field new old = (case new of None \<Rightarrow> old | Some v \<Rightarrow> Some v)"

definition set_string :: "json option \<Rightarrow> string \<Rightarrow> string" where
  "set_string new old = (case new of Some (JStr v) \<Rightarrow> v | _ \<Rightarrow> old)"

text \<open>
  Modelled from the spec: an update sets the paths of the schema that the update document
  names, whichever they are, the author reference and the slug included, and no others.
  The identifier and the creation time cannot be set.
\<close>

definition set_paths :: "update_document \<Rightarrow> post \<Rightarrow> post" where
  "set_paths u p =
     p\<lparr> author := set_string (map_of u ''author'') (author p),
        slug := set_string (map_of u ''slug'') (slug p),
        title := set_field (map_of u ''title'') (title p),
        content := set_field (map_of u ''content'') (content p),
        category := set_field (map_of u ''category'') (category p),
        tags := set_field (map_of u ''tags'') (tags p),
        published := set_field (map_of u ''published'') (published p) \<rparr>"

text \<open>
  Modelled from the spec: "slug is derived from title at creation time and regenerated
  whenever title changes, unless a slug was explicitly supplied and left untouched".
  \<open>old\<close> is the post before the write, \<open>u\<close> the update, \<open>new\<close> the post with the
  update applied.
\<close>

definition derive_slug :: "post \<Rightarrow> update_document \<Rightarrow> post \<Rightarrow> post" where
  "derive_slug old u new =
     (case title new of
        Some (JStr t) \<Rightarrow>
          if title new \<noteq> title old \<and> map_of u ''slug'' = None then new\<lparr> slug := slug_of_title t \<rparr>
          else new
      | _ \<Rightarrow> new)"

text \<open>
  Modelled from the spec: what a write of the update \<open>u\<close> at time \<open>now\<close> makes of a
  stored post: the paths are set, the slug is derived, the update timestamp is refreshed.
\<close>

definition written :: "int \<Rightarrow> update_document \<Rightarrow> post \<Rightarrow> post" where
  "written now u p = (derive_slug p u (set_paths u p))\<lparr> updatedAt := now \<rparr>"

text \<open>
  \<^verbatim>\<open>Post.findByIdAndUpdate(id, update, { new: true, runValidators: true })\<close>: the
  updated document, or null when no document has the id.
\<close>

definition findByIdAndUpdate ::
  "odm \<Rightarrow> string \<Rightarrow> update_document \<Rightarrow> store \<Rightarrow> js_error + (post option \<times> store)" where
  "findByIdAndUpdate m i u st =
     (case cast_update (cast_path m) u of
        Inl e \<Rightarrow> Inl e
      | Inr u' \<Rightarrow>
          (case posts st i of
             None \<Rightarrow> Inr (None, st)
           | Some p \<Rightarrow> Inr (Some (written (clock m) u' p),
                              st\<lparr> posts := (posts st)(i \<mapsto> written (clock m) u' p) \<rparr>)))"

definition deleteOne :: "odm \<Rightarrow> post \<Rightarrow> store \<Rightarrow> js_error + store" where
  "deleteOne m p st =
     (case delete_error m (post_id p) of
        Some e \<Rightarrow> Inl e
      | None \<Rightarrow> Inr (st\<lparr> posts := (posts st)(post_id p := None) \<rparr>))"

text \<open>\<^verbatim>\<open>.populate('author', 'username email')\<close> and the document as JSON.\<close>

definition populate_author :: "store \<Rightarrow> string \<Rightarrow> json" where
  "populate_author st a =
     (case users st a of
        None \<Rightarrow> JNull
      | Some u \<Rightarrow> obj [(''_id'', Some (JStr a)), (''username'', json_str (username u)),
                       (''email'', json_str (email u))])"

definition post_json :: "store \<Rightarrow> post option \<Rightarrow> json" where
  "post_json st d =
     (case d of
        None \<Rightarrow> JNull
      | Some p \<Rightarrow>
          obj [(''_id'', Some (JStr (post_id p))), (''title'', title p), (''content'', content p),
               (''slug'', Some (JStr (slug p))), (''category'', category p), (''tags'', tags p),
               (''published'', published p), (''author'', Some (populate_author st (author p))),
               (''createdAt'', Some (JNum (createdAt p))), (''updatedAt'', Some (JNum (updatedAt p)))])"

text \<open>
  The request as a controller reads it: the errors collected by the route's validators,
  the \<^verbatim>\<open>:id\<close> parameter, the parsed body, and the user that the authentication
  middleware stored (\<open>None\<close> when it did not run).
\<close>

record post_request =
  validation_errors :: "json list"
  param_id :: string
  body :: "string \<rightharpoonup> json"
  requester :: "user option"

definition no_requester :: js_error where
  "no_requester = plain_error ''TypeError'' ''Cannot read properties of undefined (reading 'id')''"

text \<open>
  \<^verbatim>\<open>post.author.toString() !== req.user.id && req.user.role !== 'admin'\<close>
\<close>

definition not_owner_nor_admin :: "post \<Rightarrow> user \<Rightarrow> bool" where
  "not_owner_nor_admin p u = (Some (author p) \<noteq> user_id u \<and> role u \<noteq> Some ''admin'')"

text \<open>
  \<^verbatim>\<open>const { title, content, category, tags, published } = req.body\<close> and the object
  \<^verbatim>\<open>{ title, content, category, tags, published }\<close> made of the five variables.
\<close>

definition update_paths :: "string list" where
  "update_paths = [''title'', ''content'', ''category'', ''tags'', ''published'']"

definition update_of_body :: "(string \<rightharpoonup> json) \<Rightarrow> update_document" where
  "update_of_body b = List.map_filter (\<lambda>k. map_option (Pair k) (b k)) update_paths"

definition updatePost :: "odm \<Rightarrow> post_request \<Rightarrow> store \<Rightarrow> reply \<times> store" where
  "updatePost m req st =
     (if validation_errors req \<noteq> [] then
        (Responded 400 (obj [(''error'', Some (JStr ''Validation failed'')),
                             (''details'', Some (JArr (validation_errors req)))]), st)
      else
        (case findById m st (param_id req) of
           Inl error \<Rightarrow> (Passed error, st)
         | Inr None \<Rightarrow> (Responded 404 (obj [(''error'', Some (JStr ''Post not found''))]), st)
         | Inr (Some p) \<Rightarrow>
             (case requester req of
                None \<Rightarrow> (Passed no_requester, st)
              | Some u \<Rightarrow>
                  if not_owner_nor_admin p u then
                    (Responded 403 (obj [(''error'', Some (JStr ''Not authorized to update this post''))]), st)
                  else
                    (case findByIdAndUpdate m (param_id req) (update_of_body (body req)) st of
                       Inl error \<Rightarrow> (Passed error, st)
                     | Inr (d, st') \<Rightarrow> (Responded 200 (post_json st' d), st')))))"

definition deletePost :: "odm \<Rightarrow> post_request \<Rightarrow> store \<Rightarrow> reply \<times> store" where
  "deletePost m req st =
     (case findById m st (param_id req) of
        Inl error \<Rightarrow> (Passed error, st)
      | Inr None \<Rightarrow> (Responded 404 (obj [(''error'', Some (JStr ''Post not found''))]), st)
      | Inr (Some p) \<Rightarrow>
          (case requester req of
             None \<Rightarrow> (Passed no_requester, st)
           | Some u \<Rightarrow>
               if not_owner_nor_admin p u then
                 (Responded 403 (obj [(''error'', Some (JStr ''Not authorized to delete this post''))]), st)
               else
                 (case deleteOne m p st of
                    Inl error \<Rightarrow> (Passed error, st)
                  | Inr st' \<Rightarrow>
                      (Responded 200 (obj [(''success'', Some (JBool True)),
                                           (''message'', Some (JStr ''Post deleted''))]), st'))))"

definition status_of :: "reply \<Rightarrow> int option" where
  "status_of r = (case r of Responded c _ \<Rightarrow> Some c | _ \<Rightarrow> None)"

section \<open>The classification that the error handler is specified by\<close>

text \<open>
  The specification lists six classes of error in a fixed order of precedence and says
  that the first class whose shape an error has decides the response.  The definitions
  below follow that wording; the theorems compare them with \<open>errorHandler\<close>.
\<close>

datatype error_class =
    CastFormat
  | DuplicateKey
  | ValidationFailure
  | MalformedToken
  | ExpiredToken
  | Unclassified

fun spec_shape :: "js_error \<Rightarrow> error_class \<Rightarrow> bool" where
  "spec_shape err CastFormat = (name err = Some ''CastError'')"
| "spec_shape err DuplicateKey = (code err = Some (NumCode 11000))"
| "spec_shape err ValidationFailure = (name err = Some ''ValidationError'')"
| "spec_shape err MalformedToken = (name err = Some ''JsonWebTokenError'')"
| "spec_shape err ExpiredToken = (name err = Some ''TokenExpiredError'')"
| "spec_shape err Unclassified = True"

definition spec_precedence :: "error_class list" where
  "spec_precedence = [CastFormat, DuplicateKey, ValidationFailure, MalformedToken, ExpiredToken, Unclassified]"

definition spec_classify :: "js_error \<Rightarrow> error_class" where
  "spec_classify err = (case find (spec_shape err) spec_precedence of None \<Rightarrow> Unclassified | Some c \<Rightarrow> c)"

text \<open>
  The body \<^verbatim>\<open>{error, details}\<close> of the specification, the details being the
  original message of the error when it has one.
\<close>

definition spec_envelope :: "string \<Rightarrow> string option \<Rightarrow> json" where
  "spec_envelope e original =
     JObj ((''error'', JStr e) # (case original of None \<Rightarrow> [] | Some d \<Rightarrow> [(''details'', JStr d)]))"

text \<open>
  The response the specification gives for an error of each class, written out in full;
  \<open>None\<close> where the error lacks what the response is to be made of (no conflicting
  key, no field errors).  A status code of 0 and an empty message count as not declared.
\<close>

fun spec_response :: "env \<Rightarrow> error_class \<Rightarrow> js_error \<Rightarrow> (int \<times> json) option" where
  "spec_response e CastFormat err = Some (400, spec_envelope ''Invalid ID format'' (message err))"
| "spec_response e DuplicateKey err =
     (case keyPattern err of
        Some (field # _) \<Rightarrow>
          Some (400, JObj [(''error'', JStr ''Duplicate field value''),
                           (''details'', JStr (field @ '' already exists''))])
      | _ \<Rightarrow> None)"
| "spec_response e ValidationFailure err =
     (case errors err of
        Some es \<Rightarrow>
          Some (400, JObj [(''error'', JStr ''Validation error''),
                           (''details'', JArr (map (\<lambda>(field, msg). case msg of None \<Rightarrow> JNull | Some m \<Rightarrow> JStr m) es))])
      | None \<Rightarrow> None)"
| "spec_response e MalformedToken err = Some (401, spec_envelope ''Invalid token'' (message err))"
| "spec_response e ExpiredToken err = Some (401, spec_envelope ''Token expired'' (message err))"
| "spec_response e Unclassified err =
     Some ((case statusCode err of None \<Rightarrow> 500 | Some n \<Rightarrow> if n = 0 then 500 else n),
           JObj ((''error'', JStr (case message err of
                                    None \<Rightarrow> ''Server Error''
                                  | Some m \<Rightarrow> if m = [] then ''Server Error'' else m))
                 # (if NODE_ENV e = Some ''development''
                    then (case stack err of None \<Rightarrow> [] | Some t \<Rightarrow> [(''stack'', JStr t)])
                    else [])))"

text \<open>
  The header the specification expects: \<^verbatim>\<open>Authorization: Bearer <token>\<close>, the word
  Bearer, a space and a token.
\<close>

definition spec_bearer_scheme :: "string \<Rightarrow> bool" where
  "spec_bearer_scheme h = (take 7 h = ''Bearer '' \<and> drop 7 h \<noteq> [])"

text \<open>The value of a property of a JSON object, \<open>None\<close> when the object has no such key.\<close>

definition property :: "json \<Rightarrow> string \<Rightarrow> json option" where
  "property j k = (case j of JObj kvs \<Rightarrow> map_of kvs k | _ \<Rightarrow> None)"

section \<open>Stand-ins for the libraries\<close>

text \<open>
  The libraries are not part of the sources.  What they do on concrete arguments is given
  here as far as the utilities depend on it, each step that is cryptography or parsing
  being left open as a parameter.

  \<^verbatim>\<open>compare\<close> of bcryptjs: both arguments must be strings, otherwise the call fails
  with "Illegal arguments" and the types of the two; a hash that is not 60 characters
  long matches nothing; otherwise the password is hashed with the first 29 characters
  of the hash as salt, \<open>hash_with password salt\<close>, which may fail (for a salt that is not
  one), and the result is compared with the hash.
\<close>

definition bcryptjs_compare :: "(string \<Rightarrow> string \<Rightarrow> js_error + string) \<Rightarrow> bcrypt_compare" where
  "bcryptjs_compare hash_with password hash =
     (case (password, hash) of
        (JsValue s, JsValue h) \<Rightarrow>
          if length h \<noteq> 60 then Inr False
          else (case hash_with s (take 29 h) of Inl e \<Rightarrow> Inl e | Inr rehashed \<Rightarrow> Inr (rehashed = h))
      | _ \<Rightarrow> Inl (plain_error ''Error''
                 (''Illegal arguments: '' @ typeof password @ '', '' @ typeof hash)))"

text \<open>
  \<^verbatim>\<open>verify\<close> of jsonwebtoken, called with a token and a secret and no options.
  \<open>decode t\<close> is the payload of a string that has the structure of a token, \<open>None\<close> for
  any other string; \<open>signature_ok t k\<close> says that the signature of \<open>t\<close> verifies under
  the secret \<open>k\<close>; \<open>now\<close> is the time of the call in seconds.  The checks come in the
  order of the library: the token is given, it has the structure, the secret is given,
  the signature verifies, the token is active (\<^verbatim>\<open>nbf > now\<close> refuses), the token has
  not expired (\<^verbatim>\<open>now >= exp\<close> refuses).
\<close>

definition jsonwebtoken_verify ::
  "(string \<Rightarrow> token_claims option) \<Rightarrow> (string \<Rightarrow> string \<Rightarrow> bool) \<Rightarrow> int \<Rightarrow> jwt_verify" where
  "jsonwebtoken_verify decode signature_ok now token secret =
     (case token of
        JsUndefined \<Rightarrow> Inl (plain_error ''JsonWebTokenError'' ''jwt must be provided'')
      | JsNull \<Rightarrow> Inl (plain_error ''JsonWebTokenError'' ''jwt must be provided'')
      | JsValue t \<Rightarrow>
          if t = [] then Inl (plain_error ''JsonWebTokenError'' ''jwt must be provided'')
          else
            (case decode t of
               None \<Rightarrow> Inl (plain_error ''JsonWebTokenError'' ''jwt malformed'')
             | Some payload \<Rightarrow>
                 (case secret of
                    None \<Rightarrow> Inl (plain_error ''JsonWebTokenError'' ''secret or public key must be provided'')
                  | Some k \<Rightarrow>
                      if k = [] then
                        Inl (plain_error ''JsonWebTokenError'' ''secret or public key must be provided'')
                      else if \<not> signature_ok t k then
                        Inl (plain_error ''JsonWebTokenError'' ''invalid signature'')
                      else if (case nbf payload of None \<Rightarrow> False | Some n \<Rightarrow> n > now) then
                        Inl (plain_error ''NotBeforeError'' ''jwt not active'')
                      else if (case exp payload of None \<Rightarrow> False | Some x \<Rightarrow> now \<ge> x) then
                        Inl (plain_error ''TokenExpiredError'' ''jwt expired'')
                      else Inr payload)))"

text \<open>
  \<^verbatim>\<open>sign\<close> of jsonwebtoken treats \<^verbatim>\<open>id\<close> and \<^verbatim>\<open>email\<close> as
  custom claims, whose values it does not inspect: the signer below refuses only a
  missing secret, and otherwise returns a token (here the claims it was given, readable,
  followed by the lifetime).
\<close>

definition opaque_claims_sign :: jwt_sign where
  "opaque_claims_sign p secret ttl =
     (case secret of
        None \<Rightarrow> Inl (plain_error ''Error'' ''secretOrPrivateKey must have a value'')
      | Some k \<Rightarrow> Inr (''id='' @ template_str (payload_id p) @ '';email='' @ template_str (payload_email p)
                       @ '';ttl='' @ ttl))"

section \<open>Sample values\<close>

text \<open>
  Concrete values on which the theorems below are exercised: two environments, errors as
  the tests of the error handler build them, a verifier and a user lookup standing in for
  the libraries as the mocks of the tests do, and a store with one post.
\<close>

definition production :: env where
  "production = \<lparr> NODE_ENV = Some ''production'', JWT_SECRET = Some ''test-secret'', JWT_EXPIRE = None \<rparr>"

definition development :: env where
  "development = \<lparr> NODE_ENV = Some ''development'', JWT_SECRET = Some ''test-secret'', JWT_EXPIRE = None \<rparr>"

definition get_posts_1 :: request_info where
  "get_posts_1 = \<lparr> originalUrl = Some ''/api/posts/1'', http_method = Some ''GET'', ip = Some ''127.0.0.1'' \<rparr>"

definition cast_and_duplicate :: js_error where
  "cast_and_duplicate =
     \<lparr> name = Some ''CastError'', message = Some ''Cast to ObjectId failed'', stack = None,
       code = Some (NumCode 11000), keyPattern = Some [''email''], errors = None,
       statusCode = Some 404 \<rparr>"

definition test_error :: js_error where
  "test_error =
     \<lparr> name = None, message = Some ''Test error'', stack = Some ''Error stack trace'',
       code = None, keyPattern = None, errors = None, statusCode = None \<rparr>"

definition duplicate_without_pattern :: js_error where
  "duplicate_without_pattern =
     \<lparr> name = Some ''MongoServerError'', message = Some ''E11000 duplicate key error'', stack = None,
       code = Some (NumCode 11000), keyPattern = None, errors = None, statusCode = None \<rparr>"

definition two_field_errors :: js_error where
  "two_field_errors =
     \<lparr> name = Some ''ValidationError'', message = None, stack = None, code = None, keyPattern = None,
       errors = Some [(''email'', Some ''Email is required''), (''password'', Some ''Password is required'')],
       statusCode = None \<rparr>"

definition not_found_error :: js_error where
  "not_found_error =
     \<lparr> name = None, message = Some ''Resource not found'', stack = None, code = None,
       keyPattern = None, errors = None, statusCode = Some 404 \<rparr>"

definition alice :: user where
  "alice = \<lparr> user_id = Some ''u1'', email = Some ''alice@example.com'', username = Some ''alice'',
             role = Some ''user'' \<rparr>"

definition bob :: user where
  "bob = \<lparr> user_id = Some ''u2'', email = Some ''bob@example.com'', username = Some ''bob'',
           role = Some ''user'' \<rparr>"

definition nameless :: user where
  "nameless = \<lparr> user_id = None, email = Some [], username = None, role = None \<rparr>"

definition stub_verify :: jwt_verify where
  "stub_verify token secret =
     (if token = JsValue ''valid.jwt'' \<and> secret = Some ''test-secret'' then
        Inr \<lparr> claim_id = Some ''u1'', claim_email = Some ''alice@example.com'',
              iat = Some 1700000000, nbf = None, exp = Some 1700086400 \<rparr>
      else if token = JsValue ''orphan.jwt'' \<and> secret = Some ''test-secret'' then
        Inr \<lparr> claim_id = Some ''u9'', claim_email = Some ''nobody@example.com'',
              iat = Some 1700000000, nbf = None, exp = Some 1700086400 \<rparr>
      else if token = JsValue ''expired.jwt'' then
        Inl ((plain_error ''TokenExpiredError'' ''jwt expired''))
      else if token = JsValue ''forged.jwt'' then
        Inl ((plain_error ''JsonWebTokenError'' ''invalid signature''))
      else
        Inl ((plain_error ''JsonWebTokenError'' ''jwt malformed'')))"

definition stub_findUser :: "string option \<Rightarrow> js_error + user option" where
  "stub_findUser i =
     (if i = Some ''u1'' then Inr (Some alice)
      else if i = Some ''u9'' then Inl (plain_error ''Error'' ''Database error'')
      else Inr None)"

text \<open>
  A decoder and a signature check for three token strings: one signed with the server
  secret that expires at second 1700086400, one signed with another secret, and any
  other string, which is no token.
\<close>

definition sample_decode :: "string \<Rightarrow> token_claims option" where
  "sample_decode t =
     (if t = ''valid.jwt'' \<or> t = ''forged.jwt'' then
        Some \<lparr> claim_id = Some ''u1'', claim_email = Some ''alice@example.com'',
               iat = Some 1700000000, nbf = None, exp = Some 1700086400 \<rparr>
      else None)"

definition sample_signature_ok :: "string \<Rightarrow> string \<Rightarrow> bool" where
  "sample_signature_ok t k = (t = ''valid.jwt'' \<and> k = ''test-secret'')"

text \<open>
  A salt, the hash of the password "password" under it, and a hashing that knows this
  salt only.
\<close>

definition sample_salt :: string where
  "sample_salt = ''$2a$10$N9qo8uLOickgx2ZMRZoMye''"

definition sample_hash :: string where
  "sample_hash = ''$2a$10$N9qo8uLOickgx2ZMRZoMyeIjZAgcfl7p92ldGxad68LJZdL17lhWy''"

definition sample_hash_with :: "string \<Rightarrow> string \<Rightarrow> js_error + string" where
  "sample_hash_with password salt =
     (if salt = sample_salt then
        (if password = ''password'' then Inr sample_hash
         else Inr (sample_salt @ ''0000000000000000000000000000000''))
      else Inl (plain_error ''Error'' (''Invalid salt version: '' @ take 2 salt)))"

definition sixty_dashes :: string where
  "sixty_dashes = replicate 60 CHR ''-''"

definition first_post :: post where
  "first_post =
     \<lparr> post_id = ''p1'', author = ''u1'', slug = ''original-title'',
       title = Some (JStr ''Original Title''), content = Some (JStr ''This is test post content.''),
       category = None, tags = Some (JArr []), published = Some (JBool False),
       createdAt = 1700000000, updatedAt = 1700000000 \<rparr>"

definition one_post :: store where
  "one_post = \<lparr> posts = [''p1'' \<mapsto> first_post], users = [''u1'' \<mapsto> alice, ''u2'' \<mapsto> bob] \<rparr>"

definition accepting :: odm where
  "accepting = \<lparr> find_error = (\<lambda>i. None), cast_path = (\<lambda>k v. Inr v), delete_error = (\<lambda>i. None),
                 clock = 1700000500 \<rparr>"

definition short_title :: json where
  "short_title = JObj [(''msg'', JStr ''Title must be between 3 and 200 characters''), (''path'', JStr ''title'')]"

definition invalid_update_by_bob :: post_request where
  "invalid_update_by_bob =
     \<lparr> validation_errors = [short_title], param_id = ''p1'',
       body = [''title'' \<mapsto> JStr ''ab'', ''content'' \<mapsto> JStr ''This is valid content''],
       requester = Some bob \<rparr>"

definition takeover_by_alice :: post_request where
  "takeover_by_alice =
     \<lparr> validation_errors = [], param_id = ''p1'',
       body = [''title'' \<mapsto> JStr ''Updated Title'', ''content'' \<mapsto> JStr ''This is valid content'',
               ''author'' \<mapsto> JStr ''u2'', ''slug'' \<mapsto> JStr ''stolen'', ''_id'' \<mapsto> JStr ''p2''],
       requester = Some alice \<rparr>"

section \<open>Lemmas\<close>

lemma spec_classify_cases:
  "spec_classify err =
     (if name err = Some ''CastError'' then CastFormat
      else if code err = Some (NumCode 11000) then DuplicateKey
      else if name err = Some ''ValidationError'' then ValidationFailure
      else if name err = Some ''JsonWebTokenError'' then MalformedToken
      else if name err = Some ''TokenExpiredError'' then ExpiredToken
      else Unclassified)"
  by (simp add: spec_classify_def spec_precedence_def)

lemma property_stack:
  "property (obj [(''error'', Some v), (''stack'', x)]) ''stack'' = x"
  by (cases x) (simp_all add: property_def obj_def)

lemma reply_ignores_stack:
  assumes "NODE_ENV e \<noteq> Some ''development''"
  shows "errorHandler_reply e (err\<lparr>stack := s\<rparr>) = errorHandler_reply e err"
  using assms by (simp add: errorHandler_reply_def)

lemma envelope_agrees:
  "obj [(''error'', Some (JStr e)), (''details'', json_str original)] = spec_envelope e original"
  by (cases original) (simp_all add: obj_def json_str_def spec_envelope_def)

lemma messages_agree:
  "map message_elem es = map (\<lambda>(field, msg). case msg of None \<Rightarrow> JNull | Some m \<Rightarrow> JStr m) es"
  by (induction es) (auto simp: message_elem_def)

lemma verifyToken_result:
  "verifyToken jwt_verify e token
     = (case jwt_verify token (JWT_SECRET e) of
          Inl cause \<Rightarrow> Inl (plain_error ''Error'' ''Invalid token'')
        | Inr decoded \<Rightarrow> Inr decoded)"
  by (simp add: verifyToken_def split: sum.splits)





lemma store_can_set_author:
  "author (written now [(''author'', JStr a)] p) = a"
  by (simp add: written_def derive_slug_def set_paths_def set_string_def set_field_def
        split: option.splits json.splits)






lemma accepting_casts:
  "cast_update (cast_path accepting) u = Inr u"
  by (induction u) (auto simp: accepting_def)



lemma collapse_runs_append:
  "xs \<noteq> [] \<Longrightarrow> alphanumeric (last xs) \<Longrightarrow>
     collapse_runs f (xs @ ys) = collapse_runs f xs @ collapse_runs False ys"
proof (induction xs arbitrary: f)
  case Nil
  then show ?case by simp
next
  case (Cons x xs)
  show ?case
  proof (cases "xs = []")
    case True
    with Cons.prems show ?thesis by simp
  next
    case False
    with Cons.prems have "alphanumeric (last xs)" by simp
    with False Cons.IH show ?thesis by simp
  qed
qed

lemma collapse_runs_skip:
  "\<forall>c \<in> set r. \<not> alphanumeric c \<Longrightarrow> collapse_runs True (r @ b) = collapse_runs True b"
  by (induction r) auto

lemma collapse_runs_run:
  "r \<noteq> [] \<Longrightarrow> \<forall>c \<in> set r. \<not> alphanumeric c \<Longrightarrow>
     collapse_runs False (r @ b) = CHR ''-'' # collapse_runs True b"
  by (cases r) (auto simp: collapse_runs_skip)

lemma collapse_runs_flag:
  "b = [] \<or> alphanumeric (hd b) \<Longrightarrow> collapse_runs True b = collapse_runs False b"
  by (cases b) auto

lemma collapse_runs_word:
  "\<forall>c \<in> set w. alphanumeric c \<Longrightarrow> collapse_runs f w = w"
  by (induction w arbitrary: f) auto

lemma collapse_runs_between:
  assumes "r \<noteq> []" and "\<forall>c \<in> set r. \<not> alphanumeric c"
    and "a = [] \<or> alphanumeric (last a)" and "b = [] \<or> alphanumeric (hd b)"
  shows "collapse_runs False (a @ r @ b) = collapse_runs False a @ ''-'' @ collapse_runs False b"
proof (cases "a = []")
  case True
  with assms show ?thesis
    by (simp add: collapse_runs_run collapse_runs_flag)
next
  case False
  with assms have "alphanumeric (last a)" by simp
  with False have "collapse_runs False (a @ r @ b) = collapse_runs False a @ collapse_runs False (r @ b)"
    by (rule collapse_runs_append)
  with assms show ?thesis
    by (simp add: collapse_runs_run collapse_runs_flag)
qed

section \<open>The authentication middleware\<close>

text \<open>
  Claim C1, as the code has it.  Whenever the Authorization header is absent or does not
  start with the characters Bearer, or the verification of the extracted token fails, or
  the lookup of the user named by the verified claims throws, \<open>protect\<close> answers 401
  with the body \<^verbatim>\<open>{error: "Not authorized to access this route"}\<close> and does not call
  the next handler.  The test of the scheme is this test of the first six characters
  and no more.
\<close>

theorem protect_fails_closed:
  assumes "authorization = None
           \<or> (\<exists>h. authorization = Some h \<and> \<not> startsWith h ''Bearer'')
           \<or> (\<exists>t. header_token authorization = Some t \<and> isl (verifyToken jwt_verify e (JsValue t)))
           \<or> (\<exists>t d. header_token authorization = Some t \<and> verifyToken jwt_verify e (JsValue t) = Inr d
                    \<and> isl (findUser (claim_id d)))"
  shows "response (protect jwt_verify findUser next_throws e authorization)
           = Some (401, JObj [(''error'', JStr ''Not authorized to access this route'')])
         \<and> NextCall \<notin> set (events (protect jwt_verify findUser next_throws e authorization))"
  using assms
  by (auto simp: protect_def header_token_def not_authorized_def obj_def isl_def
           split: option.splits sum.splits if_splits)

text \<open>
  The four cases on sample requests: no header, a header of another scheme, an expired
  token, and a valid token whose user lookup fails.
\<close>

theorem protect_fails_closed_witness:
  "response (protect stub_verify stub_findUser None production None)
     = Some (401, JObj [(''error'', JStr ''Not authorized to access this route'')])
   \<and> NextCall \<notin> set (events (protect stub_verify stub_findUser None production None))
   \<and> \<not> startsWith ''InvalidFormat token123'' ''Bearer''
   \<and> response (protect stub_verify stub_findUser None production (Some ''InvalidFormat token123''))
     = Some (401, JObj [(''error'', JStr ''Not authorized to access this route'')])
   \<and> header_token (Some ''Bearer expired.jwt'') = Some ''expired.jwt''
   \<and> isl (verifyToken stub_verify production (JsValue ''expired.jwt''))
   \<and> response (protect stub_verify stub_findUser None production (Some ''Bearer expired.jwt''))
     = Some (401, JObj [(''error'', JStr ''Not authorized to access this route'')])
   \<and> NextCall \<notin> set (events (protect stub_verify stub_findUser None production (Some ''Bearer expired.jwt'')))
   \<and> header_token (Some ''Bearer orphan.jwt'') = Some ''orphan.jwt''
   \<and> isl (stub_findUser (Some ''u9''))
   \<and> response (protect stub_verify stub_findUser None production (Some ''Bearer orphan.jwt''))
     = Some (401, JObj [(''error'', JStr ''Not authorized to access this route'')])
   \<and> NextCall \<notin> set (events (protect stub_verify stub_findUser None production (Some ''Bearer orphan.jwt'')))"
proof -
  have a: "\<not> startsWith ''InvalidFormat token123'' ''Bearer''"
    by (simp add: startsWith_def)
  have b: "header_token (Some ''Bearer expired.jwt'') = Some ''expired.jwt''"
    by (simp add: header_token_def startsWith_def second_def)
  have c: "isl (verifyToken stub_verify production (JsValue ''expired.jwt''))"
    by (simp add: verifyToken_def stub_verify_def)
  have d: "header_token (Some ''Bearer orphan.jwt'') = Some ''orphan.jwt''"
    by (simp add: header_token_def startsWith_def second_def)
  have v: "verifyToken stub_verify production (JsValue ''orphan.jwt'')
      = Inr \<lparr> claim_id = Some ''u9'', claim_email = Some ''nobody@example.com'',
              iat = Some 1700000000, nbf = None, exp = Some 1700086400 \<rparr>"
    by (simp add: verifyToken_def stub_verify_def production_def)
  have f: "isl (stub_findUser (Some ''u9''))"
    by (simp add: stub_findUser_def)
  have g: "isl (stub_findUser (claim_id \<lparr> claim_id = Some ''u9'', claim_email = Some ''nobody@example.com'',
              iat = Some 1700000000, nbf = None, exp = Some 1700086400 \<rparr>))"
    using f by simp
  show ?thesis
    using a b c d f v g
      protect_fails_closed [of None stub_verify production stub_findUser None]
      protect_fails_closed [of "Some ''InvalidFormat token123''" stub_verify production stub_findUser None]
      protect_fails_closed [of "Some ''Bearer expired.jwt''" stub_verify production stub_findUser None]
      protect_fails_closed [of "Some ''Bearer orphan.jwt''" stub_verify production stub_findUser None]
    by blast
qed

text \<open>
  A header that is not of the form Bearer, space, token, but starts with the six
  characters: the token after the space is verified, the user is looked up and the next
  handler is called; no 401 is sent.
\<close>

theorem protect_admits_other_scheme:
  "\<not> spec_bearer_scheme ''Bearerxyz valid.jwt''
   \<and> response (protect stub_verify stub_findUser None production (Some ''Bearerxyz valid.jwt'')) = None
   \<and> events (protect stub_verify stub_findUser None production (Some ''Bearerxyz valid.jwt''))
       = [VerifyCall ''valid.jwt'', LookupCall (Some ''u1''), NextCall]
   \<and> req_user (protect stub_verify stub_findUser None production (Some ''Bearerxyz valid.jwt'')) = Some alice"
  by (simp add: spec_bearer_scheme_def protect_def header_token_def startsWith_def second_def
        verifyToken_def stub_verify_def production_def stub_findUser_def)

text \<open>
  Claim C9.  The scheme check is a prefix check.  For a header that starts with the six
  characters Bearer, with or without a space after them, the token is the second of the
  pieces between spaces.  When the header does not start with Bearer, or has no second
  piece (as the header Bearer alone), or has an empty one, the request is answered 401
  with no call made: neither the verification nor the lookup is reached.  When the
  second piece is a non-empty token, the first call made is its verification.
\<close>

theorem bearer_check_is_prefix_based:
  "(startsWith h ''Bearer'' \<longrightarrow> header_token (Some h) = second (split CHR '' '' h))
   \<and> (\<not> startsWith h ''Bearer'' \<or> second (split CHR '' '' h) = None \<or> second (split CHR '' '' h) = Some [] \<longrightarrow>
        protect jwt_verify findUser next_throws e (Some h)
          = \<lparr> events = [], response = Some (401, JObj [(''error'', JStr ''Not authorized to access this route'')]),
              req_user = None \<rparr>)
   \<and> (startsWith h ''Bearer'' \<and> second (split CHR '' '' h) = Some t \<and> t \<noteq> [] \<longrightarrow>
        take 1 (events (protect jwt_verify findUser next_throws e (Some h))) = [VerifyCall t])"
  by (auto simp: protect_def header_token_def not_authorized_def obj_def startsWith_def
           split: option.splits sum.splits if_splits)

text \<open>
  A header without a space after the prefix is accepted, the bare prefix and another
  scheme are refused before any call.
\<close>

theorem bearer_check_is_prefix_based_witness:
  "startsWith ''Bearerxyz tok'' ''Bearer''
   \<and> header_token (Some ''Bearerxyz tok'') = Some ''tok''
   \<and> take 1 (events (protect stub_verify stub_findUser None production (Some ''Bearerxyz tok'')))
       = [VerifyCall ''tok'']
   \<and> second (split CHR '' '' ''Bearer'') = None
   \<and> protect stub_verify stub_findUser None production (Some ''Bearer'')
       = \<lparr> events = [], response = Some (401, JObj [(''error'', JStr ''Not authorized to access this route'')]),
           req_user = None \<rparr>
   \<and> \<not> startsWith ''Basic dXNlcjpwdw=='' ''Bearer''
   \<and> protect stub_verify stub_findUser None production (Some ''Basic dXNlcjpwdw=='')
       = \<lparr> events = [], response = Some (401, JObj [(''error'', JStr ''Not authorized to access this route'')]),
           req_user = None \<rparr>"
proof -
  have a: "startsWith ''Bearerxyz tok'' ''Bearer''"
    by (simp add: startsWith_def)
  have b: "second (split CHR '' '' ''Bearerxyz tok'') = Some ''tok''"
    by (simp add: second_def)
  have c: "second (split CHR '' '' ''Bearer'') = None"
    by (simp add: second_def)
  have d: "\<not> startsWith ''Basic dXNlcjpwdw=='' ''Bearer''"
    by (simp add: startsWith_def)
  have t: "''tok'' \<noteq> []"
    by simp
  show ?thesis
    using a b c d t
      bearer_check_is_prefix_based [where h = "''Bearerxyz tok''" and t = "''tok''" and jwt_verify = stub_verify
        and findUser = stub_findUser and next_throws = None and e = production]
      bearer_check_is_prefix_based [where h = "''Bearer''" and jwt_verify = stub_verify
        and findUser = stub_findUser and next_throws = None and e = production]
      bearer_check_is_prefix_based [where h = "''Basic dXNlcjpwdw==''" and jwt_verify = stub_verify
        and findUser = stub_findUser and next_throws = None and e = production]
    by simp
qed

section \<open>The authentication utilities\<close>

text \<open>
  Claim C5, as the code has it.  Whatever the cause for which the library refuses a
  token, \<open>verifyToken\<close> fails with the one error \<^verbatim>\<open>Error('Invalid token')\<close>, so that
  two failures cannot be told apart by their result, and a token that the library
  accepts yields the claims it decoded.  With jsonwebtoken, a string that has not the
  structure of a token, a token whose signature does not verify under the server
  secret, and a token whose expiry is at or before the time of verification are refused;
  a token with a verifying signature that is active and whose expiry, if it has one,
  is after the time of verification yields its claims.
\<close>

theorem verifyToken_uniform_failure:
  "(jwt_verify token (JWT_SECRET e) = Inl cause \<longrightarrow>
      verifyToken jwt_verify e token = Inl (plain_error ''Error'' ''Invalid token''))
   \<and> (jwt_verify token (JWT_SECRET e) = Inl cause \<and> jwt_verify' token' (JWT_SECRET e') = Inl cause' \<longrightarrow>
        verifyToken jwt_verify e token = verifyToken jwt_verify' e' token')
   \<and> (jwt_verify token (JWT_SECRET e) = Inr decoded \<longrightarrow> verifyToken jwt_verify e token = Inr decoded)
   \<and> (decode t = None \<longrightarrow>
        verifyToken (jsonwebtoken_verify decode signature_ok now) e (JsValue t)
          = Inl (plain_error ''Error'' ''Invalid token''))
   \<and> (JWT_SECRET e = Some k \<and> \<not> signature_ok t k \<longrightarrow>
        verifyToken (jsonwebtoken_verify decode signature_ok now) e (JsValue t)
          = Inl (plain_error ''Error'' ''Invalid token''))
   \<and> (decode t = Some payload \<and> exp payload = Some x \<and> x \<le> now \<longrightarrow>
        verifyToken (jsonwebtoken_verify decode signature_ok now) e (JsValue t)
          = Inl (plain_error ''Error'' ''Invalid token''))
   \<and> (t \<noteq> [] \<and> decode t = Some payload \<and> JWT_SECRET e = Some k \<and> k \<noteq> [] \<and> signature_ok t k
        \<and> (nbf payload = None \<or> (\<exists>n. nbf payload = Some n \<and> n \<le> now))
        \<and> (exp payload = None \<or> (\<exists>y. exp payload = Some y \<and> now < y)) \<longrightarrow>
        verifyToken (jsonwebtoken_verify decode signature_ok now) e (JsValue t) = Inr payload)"
proof (intro conjI impI)
  assume "jwt_verify token (JWT_SECRET e) = Inl cause"
  then show "verifyToken jwt_verify e token = Inl (plain_error ''Error'' ''Invalid token'')"
    by (simp add: verifyToken_result)
next
  assume both: "jwt_verify token (JWT_SECRET e) = Inl cause \<and> jwt_verify' token' (JWT_SECRET e') = Inl cause'"
  then have "verifyToken jwt_verify e token = Inl (plain_error ''Error'' ''Invalid token'')"
    by (simp add: verifyToken_result)
  moreover from both have "verifyToken jwt_verify' e' token' = Inl (plain_error ''Error'' ''Invalid token'')"
    by (simp add: verifyToken_result)
  ultimately show "verifyToken jwt_verify e token = verifyToken jwt_verify' e' token'"
    by simp
next
  assume "jwt_verify token (JWT_SECRET e) = Inr decoded"
  then show "verifyToken jwt_verify e token = Inr decoded"
    by (simp add: verifyToken_result)
next
  assume "decode t = None"
  then have "isl (jsonwebtoken_verify decode signature_ok now (JsValue t) (JWT_SECRET e))"
    by (simp add: jsonwebtoken_verify_def)
  then show "verifyToken (jsonwebtoken_verify decode signature_ok now) e (JsValue t)
          = Inl (plain_error ''Error'' ''Invalid token'')"
    by (auto simp: verifyToken_result isl_def)
next
  assume "JWT_SECRET e = Some k \<and> \<not> signature_ok t k"
  then have "isl (jsonwebtoken_verify decode signature_ok now (JsValue t) (JWT_SECRET e))"
    by (simp add: jsonwebtoken_verify_def split: option.splits)
  then show "verifyToken (jsonwebtoken_verify decode signature_ok now) e (JsValue t)
          = Inl (plain_error ''Error'' ''Invalid token'')"
    by (auto simp: verifyToken_result isl_def)
next
  assume "decode t = Some payload \<and> exp payload = Some x \<and> x \<le> now"
  then have "isl (jsonwebtoken_verify decode signature_ok now (JsValue t) (JWT_SECRET e))"
    by (simp add: jsonwebtoken_verify_def split: option.splits)
  then show "verifyToken (jsonwebtoken_verify decode signature_ok now) e (JsValue t)
          = Inl (plain_error ''Error'' ''Invalid token'')"
    by (auto simp: verifyToken_result isl_def)
next
  assume "t \<noteq> [] \<and> decode t = Some payload \<and> JWT_SECRET e = Some k \<and> k \<noteq> [] \<and> signature_ok t k
        \<and> (nbf payload = None \<or> (\<exists>n. nbf payload = Some n \<and> n \<le> now))
        \<and> (exp payload = None \<or> (\<exists>y. exp payload = Some y \<and> now < y))"
  then have "jsonwebtoken_verify decode signature_ok now (JsValue t) (JWT_SECRET e) = Inr payload"
    by (auto simp: jsonwebtoken_verify_def)
  then show "verifyToken (jsonwebtoken_verify decode signature_ok now) e (JsValue t) = Inr payload"
    by (simp add: verifyToken_result)
qed

text \<open>
  With the sample decoder: a string that is no token, a token signed with another
  secret and a token verified after its expiry give the same failure; the token
  verified before its expiry gives its claims.
\<close>

theorem verifyToken_uniform_failure_witness:
  "sample_decode ''not a token'' = None
   \<and> verifyToken (jsonwebtoken_verify sample_decode sample_signature_ok 1700000600) production (JsValue ''not a token'')
       = Inl (plain_error ''Error'' ''Invalid token'')
   \<and> \<not> sample_signature_ok ''forged.jwt'' ''test-secret''
   \<and> verifyToken (jsonwebtoken_verify sample_decode sample_signature_ok 1700000600) production (JsValue ''forged.jwt'')
       = Inl (plain_error ''Error'' ''Invalid token'')
   \<and> verifyToken (jsonwebtoken_verify sample_decode sample_signature_ok 1700090000) production (JsValue ''valid.jwt'')
       = Inl (plain_error ''Error'' ''Invalid token'')
   \<and> verifyToken (jsonwebtoken_verify sample_decode sample_signature_ok 1700000600) production (JsValue ''valid.jwt'')
       = Inr \<lparr> claim_id = Some ''u1'', claim_email = Some ''alice@example.com'',
               iat = Some 1700000000, nbf = None, exp = Some 1700086400 \<rparr>
   \<and> verifyToken stub_verify production (JsValue ''expired.jwt'') = verifyToken stub_verify production (JsValue ''forged.jwt'')"
proof -
  let ?claims = "\<lparr> claim_id = Some ''u1'', claim_email = Some ''alice@example.com'',
               iat = Some 1700000000, nbf = None, exp = Some 1700086400 \<rparr>"
  have a: "sample_decode ''not a token'' = None"
    by (simp add: sample_decode_def)
  have b: "JWT_SECRET production = Some ''test-secret''" "\<not> sample_signature_ok ''forged.jwt'' ''test-secret''"
    "sample_signature_ok ''valid.jwt'' ''test-secret''"
    by (simp_all add: production_def sample_signature_ok_def)
  have c: "sample_decode ''valid.jwt'' = Some ?claims"
    by (simp add: sample_decode_def)
  have d: "stub_verify (JsValue ''expired.jwt'') (JWT_SECRET production) = Inl (plain_error ''TokenExpiredError'' ''jwt expired'')"
    "stub_verify (JsValue ''forged.jwt'') (JWT_SECRET production) = Inl (plain_error ''JsonWebTokenError'' ''invalid signature'')"
    by (simp_all add: stub_verify_def)
  have malformed: "verifyToken (jsonwebtoken_verify sample_decode sample_signature_ok 1700000600) production
        (JsValue ''not a token'') = Inl (plain_error ''Error'' ''Invalid token'')"
    using a verifyToken_uniform_failure [where jwt_verify = stub_verify and token = "JsValue ''expired.jwt''"
        and e = production and cause = "plain_error ''TokenExpiredError'' ''jwt expired''"
        and jwt_verify' = stub_verify and token' = "JsValue ''forged.jwt''" and e' = production
        and cause' = "plain_error ''JsonWebTokenError'' ''invalid signature''" and decoded = "?claims"
        and decode = sample_decode and signature_ok = sample_signature_ok and payload = "?claims"
        and t = "''not a token''" and now = 1700000600 and k = "''test-secret''" and x = 1700086400]
    by blast
  have forged: "verifyToken (jsonwebtoken_verify sample_decode sample_signature_ok 1700000600) production
        (JsValue ''forged.jwt'') = Inl (plain_error ''Error'' ''Invalid token'')"
    using b verifyToken_uniform_failure [where jwt_verify = stub_verify and token = "JsValue ''expired.jwt''"
        and e = production and cause = "plain_error ''TokenExpiredError'' ''jwt expired''"
        and jwt_verify' = stub_verify and token' = "JsValue ''forged.jwt''" and e' = production
        and cause' = "plain_error ''JsonWebTokenError'' ''invalid signature''" and decoded = "?claims"
        and decode = sample_decode and signature_ok = sample_signature_ok and payload = "?claims"
        and t = "''forged.jwt''" and now = 1700000600 and k = "''test-secret''" and x = 1700086400]
    by blast
  have expired: "verifyToken (jsonwebtoken_verify sample_decode sample_signature_ok 1700090000) production
        (JsValue ''valid.jwt'') = Inl (plain_error ''Error'' ''Invalid token'')"
    using c verifyToken_uniform_failure [where jwt_verify = stub_verify and token = "JsValue ''expired.jwt''"
        and e = production and cause = "plain_error ''TokenExpiredError'' ''jwt expired''"
        and jwt_verify' = stub_verify and token' = "JsValue ''forged.jwt''" and e' = production
        and cause' = "plain_error ''JsonWebTokenError'' ''invalid signature''" and decoded = "?claims"
        and decode = sample_decode and signature_ok = sample_signature_ok and payload = "?claims"
        and t = "''valid.jwt''" and now = 1700090000 and k = "''test-secret''" and x = 1700086400]
    by simp
  have valid: "verifyToken (jsonwebtoken_verify sample_decode sample_signature_ok 1700000600) production
        (JsValue ''valid.jwt'') = Inr ?claims"
    using b c verifyToken_uniform_failure [where jwt_verify = stub_verify and token = "JsValue ''expired.jwt''"
        and e = production and cause = "plain_error ''TokenExpiredError'' ''jwt expired''"
        and jwt_verify' = stub_verify and token' = "JsValue ''forged.jwt''" and e' = production
        and cause' = "plain_error ''JsonWebTokenError'' ''invalid signature''" and decoded = "?claims"
        and decode = sample_decode and signature_ok = sample_signature_ok and payload = "?claims"
        and t = "''valid.jwt''" and now = 1700000600 and k = "''test-secret''" and x = 1700086400]
    by simp
  have same: "verifyToken stub_verify production (JsValue ''expired.jwt'') = verifyToken stub_verify production (JsValue ''forged.jwt'')"
    using d verifyToken_uniform_failure [where jwt_verify = stub_verify and token = "JsValue ''expired.jwt''"
        and e = production and cause = "plain_error ''TokenExpiredError'' ''jwt expired''"
        and jwt_verify' = stub_verify and token' = "JsValue ''forged.jwt''" and e' = production
        and cause' = "plain_error ''JsonWebTokenError'' ''invalid signature''" and decoded = "?claims"
        and decode = sample_decode and signature_ok = sample_signature_ok and payload = "?claims"
        and t = "''valid.jwt''" and now = 1700000600 and k = "''test-secret''" and x = 1700086400]
    by blast
  from a b malformed forged expired valid same show ?thesis
    by simp
qed

text \<open>
  A token verified in the very second of its expiry, which is not strictly before the
  time of verification, is refused.
\<close>

theorem verifyToken_refuses_at_expiry:
  "sample_decode ''valid.jwt''
     = Some \<lparr> claim_id = Some ''u1'', claim_email = Some ''alice@example.com'',
              iat = Some 1700000000, nbf = None, exp = Some 1700086400 \<rparr>
   \<and> sample_signature_ok ''valid.jwt'' ''test-secret''
   \<and> \<not> (1700086400 < (1700086400 :: int))
   \<and> verifyToken (jsonwebtoken_verify sample_decode sample_signature_ok 1700086400) production (JsValue ''valid.jwt'')
       = Inl (plain_error ''Error'' ''Invalid token'')"
  by (simp add: verifyToken_def jsonwebtoken_verify_def sample_decode_def sample_signature_ok_def
        production_def)

text \<open>
  Claim C6, as the code has it.  \<open>generateToken\<close> fails for a null and for an undefined
  user, on reading the identifier.  For a user object it checks nothing: the result is
  the result of the signing call on the payload made of the user's identifier and email,
  whatever these are.
\<close>

theorem generateToken_checks_only_the_reference:
  "isl (generateToken jwt_sign e JsNull)
   \<and> isl (generateToken jwt_sign e JsUndefined)
   \<and> generateToken jwt_sign e (JsValue u)
       = jwt_sign \<lparr> payload_id = user_id u, payload_email = email u \<rparr> (JWT_SECRET e) (expiresIn e)"
proof (intro conjI)
  show "isl (generateToken jwt_sign e JsNull)"
    by (simp add: generateToken_def)
  show "isl (generateToken jwt_sign e JsUndefined)"
    by (simp add: generateToken_def)
  show "generateToken jwt_sign e (JsValue u)
       = jwt_sign \<lparr> payload_id = user_id u, payload_email = email u \<rparr> (JWT_SECRET e) (expiresIn e)"
    by (simp add: generateToken_def)
qed

text \<open>
  A user object with no identifier and an empty email is given a token by a signer that
  does not inspect the custom claims.
\<close>

theorem generateToken_accepts_missing_id:
  "user_id nameless = None \<and> email nameless = Some []
   \<and> generateToken opaque_claims_sign production (JsValue nameless) = Inr ''id=undefined;email=;ttl=24h''"
  by (simp add: generateToken_def opaque_claims_sign_def production_def nameless_def expiresIn_def
        template_str_def)

text \<open>
  Claim C7, as the code has it.  \<open>comparePassword\<close> adds nothing to the library call:
  its result is the library's, a rejection included.  With bcryptjs, a string password
  against a string hash that is not 60 characters long gives false; against one of 60
  characters it gives whether the password hashed with the salt of the hash equals the
  hash, or the rejection with which that hashing fails; a hash that is undefined or null
  gives a rejection, not false, for an undefined hash the error "Illegal arguments:
  string, undefined".
\<close>

theorem comparePassword_passes_through:
  "comparePassword bcrypt_compare password hash = bcrypt_compare password hash
   \<and> (length h \<noteq> 60 \<longrightarrow>
        comparePassword (bcryptjs_compare hash_with) (JsValue s) (JsValue h) = Inr False)
   \<and> (length h = 60 \<and> hash_with s (take 29 h) = Inr rehashed \<longrightarrow>
        comparePassword (bcryptjs_compare hash_with) (JsValue s) (JsValue h) = Inr (rehashed = h))
   \<and> (length h = 60 \<and> hash_with s (take 29 h) = Inl failure \<longrightarrow>
        comparePassword (bcryptjs_compare hash_with) (JsValue s) (JsValue h) = Inl failure)
   \<and> comparePassword (bcryptjs_compare hash_with) (JsValue s) JsUndefined
       = Inl (plain_error ''Error'' ''Illegal arguments: string, undefined'')
   \<and> isl (comparePassword (bcryptjs_compare hash_with) password JsUndefined)
   \<and> isl (comparePassword (bcryptjs_compare hash_with) password JsNull)"
proof (intro conjI impI)
  show "comparePassword bcrypt_compare password hash = bcrypt_compare password hash"
    by (simp add: comparePassword_def)
  show "comparePassword (bcryptjs_compare hash_with) (JsValue s) JsUndefined
       = Inl (plain_error ''Error'' ''Illegal arguments: string, undefined'')"
    by (simp add: comparePassword_def bcryptjs_compare_def typeof_def)
  show "isl (comparePassword (bcryptjs_compare hash_with) password JsUndefined)"
    by (cases password) (simp_all add: comparePassword_def bcryptjs_compare_def)
  show "isl (comparePassword (bcryptjs_compare hash_with) password JsNull)"
    by (cases password) (simp_all add: comparePassword_def bcryptjs_compare_def)
next
  assume "length h \<noteq> 60"
  then show "comparePassword (bcryptjs_compare hash_with) (JsValue s) (JsValue h) = Inr False"
    by (simp add: comparePassword_def bcryptjs_compare_def)
next
  assume "length h = 60 \<and> hash_with s (take 29 h) = Inr rehashed"
  then show "comparePassword (bcryptjs_compare hash_with) (JsValue s) (JsValue h) = Inr (rehashed = h)"
    by (simp add: comparePassword_def bcryptjs_compare_def)
next
  assume "length h = 60 \<and> hash_with s (take 29 h) = Inl failure"
  then show "comparePassword (bcryptjs_compare hash_with) (JsValue s) (JsValue h) = Inl failure"
    by (simp add: comparePassword_def bcryptjs_compare_def)
qed

text \<open>
  With the sample hashing: a short string matches nothing, the hash of the password
  matches it and not the empty password, and 60 characters that are no hash make the
  call reject.
\<close>

theorem comparePassword_passes_through_witness:
  "comparePassword (bcryptjs_compare sample_hash_with) (JsValue ''password'') (JsValue ''too short'') = Inr False
   \<and> comparePassword (bcryptjs_compare sample_hash_with) (JsValue ''password'') (JsValue sample_hash) = Inr True
   \<and> comparePassword (bcryptjs_compare sample_hash_with) (JsValue []) (JsValue sample_hash) = Inr False
   \<and> length sixty_dashes = 60
   \<and> comparePassword (bcryptjs_compare sample_hash_with) (JsValue ''password'') (JsValue sixty_dashes)
       = Inl (plain_error ''Error'' ''Invalid salt version: --'')"
proof -
  have a: "length ''too short'' \<noteq> 60" "length sample_hash = 60" "length sixty_dashes = 60"
    by (simp_all add: sample_hash_def sixty_dashes_def)
  have b: "take 29 sample_hash = sample_salt"
    by (simp add: sample_hash_def sample_salt_def)
  have c: "sample_hash_with ''password'' (take 29 sample_hash) = Inr sample_hash"
    "sample_hash_with [] (take 29 sample_hash) = Inr (sample_salt @ ''0000000000000000000000000000000'')"
    by (simp_all add: b sample_hash_with_def)
  have d: "(sample_salt @ ''0000000000000000000000000000000'' = sample_hash) = False"
    by (simp add: sample_hash_def sample_salt_def)
  have f: "sample_hash_with ''password'' (take 29 sixty_dashes) = Inl (plain_error ''Error'' ''Invalid salt version: --'')"
    by (simp add: sample_hash_with_def sixty_dashes_def sample_salt_def eval_nat_numeral)
  have short: "comparePassword (bcryptjs_compare sample_hash_with) (JsValue ''password'') (JsValue ''too short'') = Inr False"
    using a comparePassword_passes_through [where bcrypt_compare = "bcryptjs_compare sample_hash_with"
        and password = "JsValue ''password''" and hash = "JsValue ''too short''" and hash_with = sample_hash_with
        and s = "''password''" and h = "''too short''" and rehashed = "sample_hash"
        and failure = "plain_error ''Error'' ''Invalid salt version: --''"]
    by blast
  have "comparePassword (bcryptjs_compare sample_hash_with) (JsValue ''password'') (JsValue sample_hash)
      = Inr (sample_hash = sample_hash)"
    using a c comparePassword_passes_through [where bcrypt_compare = "bcryptjs_compare sample_hash_with"
        and password = "JsValue ''password''" and hash = "JsValue sample_hash" and hash_with = sample_hash_with
        and s = "''password''" and h = "sample_hash" and rehashed = "sample_hash"
        and failure = "plain_error ''Error'' ''Invalid salt version: --''"]
    by blast
  then have match: "comparePassword (bcryptjs_compare sample_hash_with) (JsValue ''password'') (JsValue sample_hash) = Inr True"
    by simp
  have "comparePassword (bcryptjs_compare sample_hash_with) (JsValue []) (JsValue sample_hash)
      = Inr (sample_salt @ ''0000000000000000000000000000000'' = sample_hash)"
    using a c comparePassword_passes_through [where bcrypt_compare = "bcryptjs_compare sample_hash_with"
        and password = "JsValue []" and hash = "JsValue sample_hash" and hash_with = sample_hash_with
        and s = "[]" and h = "sample_hash" and rehashed = "sample_salt @ ''0000000000000000000000000000000''"
        and failure = "plain_error ''Error'' ''Invalid salt version: --''"]
    by blast
  then have empty: "comparePassword (bcryptjs_compare sample_hash_with) (JsValue []) (JsValue sample_hash) = Inr False"
    by (simp only: d)
  have nohash: "comparePassword (bcryptjs_compare sample_hash_with) (JsValue ''password'') (JsValue sixty_dashes)
       = Inl (plain_error ''Error'' ''Invalid salt version: --'')"
    using a f comparePassword_passes_through [where bcrypt_compare = "bcryptjs_compare sample_hash_with"
        and password = "JsValue ''password''" and hash = "JsValue sixty_dashes" and hash_with = sample_hash_with
        and s = "''password''" and h = "sixty_dashes" and rehashed = "sample_hash"
        and failure = "plain_error ''Error'' ''Invalid salt version: --''"]
    by blast
  from a short match empty nohash show ?thesis
    by simp
qed

text \<open>A password compared with an undefined hash: the call rejects, it does not answer false.\<close>

theorem comparePassword_rejects_undefined_hash:
  "comparePassword (bcryptjs_compare sample_hash_with) (JsValue ''password123'') JsUndefined
     = Inl (plain_error ''Error'' ''Illegal arguments: string, undefined'')"
  by (simp add: comparePassword_def bcryptjs_compare_def typeof_def)

section \<open>The error handler\<close>

text \<open>
  Claim C3, as the code has it.  The error handler answers as the first class whose
  shape the error has, in the order cast error, duplicate key, validation failure,
  malformed token, expired token, anything else: an error for which the specification
  gives the response \<open>(c, b)\<close> is answered with status \<open>c\<close> and body \<open>b\<close>.  The
  specification gives a response to every error but a duplicate-key error that names no
  conflicting key and a validation failure without its field errors.
\<close>

theorem errorHandler_first_match:
  assumes "spec_response e (spec_classify err) err = Some (c, b)"
  shows "snd (errorHandler e req err) = Responded c b"
proof -
  consider (cast) "spec_classify err = CastFormat" | (dup) "spec_classify err = DuplicateKey"
    | (val) "spec_classify err = ValidationFailure" | (mal) "spec_classify err = MalformedToken"
    | (expd) "spec_classify err = ExpiredToken" | (other) "spec_classify err = Unclassified"
    by (cases "spec_classify err") auto
  then show ?thesis
  proof cases
    case cast
    with assms show ?thesis
      by (auto simp: spec_classify_cases errorHandler_def errorHandler_reply_def envelope_agrees
          split: if_splits)
  next
    case dup
    with assms show ?thesis
      by (auto simp: spec_classify_cases errorHandler_def errorHandler_reply_def first_key_def
          template_str_def obj_def split: if_splits option.splits list.splits)
  next
    case val
    with assms show ?thesis
      by (auto simp: spec_classify_cases errorHandler_def errorHandler_reply_def obj_def messages_agree
          split: if_splits option.splits)
  next
    case mal
    with assms show ?thesis
      by (auto simp: spec_classify_cases errorHandler_def errorHandler_reply_def envelope_agrees
          split: if_splits)
  next
    case expd
    with assms show ?thesis
      by (auto simp: spec_classify_cases errorHandler_def errorHandler_reply_def envelope_agrees
          split: if_splits)
  next
    case other
    with assms show ?thesis
      by (auto simp: spec_classify_cases errorHandler_def errorHandler_reply_def obj_def json_str_def
          status_or_500_def message_or_default_def split: if_splits option.splits)
  qed
qed

text \<open>
  An error that has the shape of a cast error, of a duplicate key and a declared status
  of its own is answered as a cast error, and as a duplicate key once it is no cast
  error; the validation failure of the tests is answered with its two messages in
  order; a declared status of 404 is used, and 500 when none is declared.
\<close>

theorem errorHandler_first_match_witness:
  "spec_shape cast_and_duplicate DuplicateKey
   \<and> snd (errorHandler production get_posts_1 cast_and_duplicate)
       = Responded 400 (JObj [(''error'', JStr ''Invalid ID format''), (''details'', JStr ''Cast to ObjectId failed'')])
   \<and> snd (errorHandler production get_posts_1 (cast_and_duplicate\<lparr> name := Some ''MongoServerError'' \<rparr>))
       = Responded 400 (JObj [(''error'', JStr ''Duplicate field value''), (''details'', JStr ''email already exists'')])
   \<and> snd (errorHandler production get_posts_1 two_field_errors)
       = Responded 400 (JObj [(''error'', JStr ''Validation error''),
                              (''details'', JArr [JStr ''Email is required'', JStr ''Password is required''])])
   \<and> snd (errorHandler production get_posts_1 not_found_error)
       = Responded 404 (JObj [(''error'', JStr ''Resource not found'')])
   \<and> snd (errorHandler production get_posts_1 (not_found_error\<lparr> statusCode := None, message := None \<rparr>))
       = Responded 500 (JObj [(''error'', JStr ''Server Error'')])"
proof -
  have a: "spec_response production (spec_classify cast_and_duplicate) cast_and_duplicate
     = Some (400, JObj [(''error'', JStr ''Invalid ID format''), (''details'', JStr ''Cast to ObjectId failed'')])"
    by (simp add: spec_classify_def spec_precedence_def cast_and_duplicate_def spec_envelope_def)
  have b: "spec_response production (spec_classify (cast_and_duplicate\<lparr> name := Some ''MongoServerError'' \<rparr>))
       (cast_and_duplicate\<lparr> name := Some ''MongoServerError'' \<rparr>)
     = Some (400, JObj [(''error'', JStr ''Duplicate field value''), (''details'', JStr ''email already exists'')])"
    by (simp add: spec_classify_def spec_precedence_def cast_and_duplicate_def)
  have c: "spec_response production (spec_classify two_field_errors) two_field_errors
     = Some (400, JObj [(''error'', JStr ''Validation error''),
                        (''details'', JArr [JStr ''Email is required'', JStr ''Password is required''])])"
    by (simp add: spec_classify_def spec_precedence_def two_field_errors_def)
  have d: "spec_response production (spec_classify not_found_error) not_found_error
     = Some (404, JObj [(''error'', JStr ''Resource not found'')])"
    by (simp add: spec_classify_def spec_precedence_def not_found_error_def production_def)
  have f: "spec_response production (spec_classify (not_found_error\<lparr> statusCode := None, message := None \<rparr>))
       (not_found_error\<lparr> statusCode := None, message := None \<rparr>)
     = Some (500, JObj [(''error'', JStr ''Server Error'')])"
    by (simp add: spec_classify_def spec_precedence_def not_found_error_def production_def)
  have s: "spec_shape cast_and_duplicate DuplicateKey"
    by (simp add: cast_and_duplicate_def)
  show ?thesis
    using s
      errorHandler_first_match [OF a, of get_posts_1]
      errorHandler_first_match [OF b, of get_posts_1]
      errorHandler_first_match [OF c, of get_posts_1]
      errorHandler_first_match [OF d, of get_posts_1]
      errorHandler_first_match [OF f, of get_posts_1]
    by simp
qed

text \<open>
  A duplicate-key error that carries no key pattern: the handler throws on reading the
  keys and sends no response.
\<close>

theorem errorHandler_throws_without_keyPattern:
  "spec_classify duplicate_without_pattern = DuplicateKey
   \<and> keyPattern duplicate_without_pattern = None
   \<and> snd (errorHandler production get_posts_1 duplicate_without_pattern)
       = Crashed (plain_error ''TypeError'' ''Cannot convert undefined or null to object'')
   \<and> status_of (snd (errorHandler production get_posts_1 duplicate_without_pattern)) = None"
  by (simp add: spec_classify_def spec_precedence_def duplicate_without_pattern_def errorHandler_def
        errorHandler_reply_def status_of_def)

text \<open>
  Claim C4.  For an error answered by the default branch, the body carries the stack of
  the error in development mode and has no stack property in any other mode.  In a mode
  other than development, two errors that differ only in their stack get the same
  response.
\<close>

theorem errorHandler_stack_only_in_development:
  "(spec_classify err = Unclassified \<longrightarrow>
      (\<exists>c b. snd (errorHandler e req err) = Responded c b
             \<and> (NODE_ENV e = Some ''development'' \<longrightarrow> property b ''stack'' = json_str (stack err))
             \<and> (NODE_ENV e \<noteq> Some ''development'' \<longrightarrow> property b ''stack'' = None)))
   \<and> (NODE_ENV e \<noteq> Some ''development'' \<longrightarrow>
        snd (errorHandler e req (err\<lparr>stack := sa\<rparr>)) = snd (errorHandler e req (err\<lparr>stack := sb\<rparr>)))"
proof (intro conjI impI)
  assume u: "spec_classify err = Unclassified"
  then have "errorHandler_reply e err =
      Responded (status_or_500 (statusCode err))
        (obj [(''error'', Some (JStr (message_or_default (message err)))),
              (''stack'', if NODE_ENV e = Some ''development'' then json_str (stack err) else None)])"
    by (simp add: spec_classify_cases errorHandler_reply_def split: if_splits)
  then show "\<exists>c b. snd (errorHandler e req err) = Responded c b
             \<and> (NODE_ENV e = Some ''development'' \<longrightarrow> property b ''stack'' = json_str (stack err))
             \<and> (NODE_ENV e \<noteq> Some ''development'' \<longrightarrow> property b ''stack'' = None)"
    by (simp add: errorHandler_def property_stack)
next
  assume "NODE_ENV e \<noteq> Some ''development''"
  then have "errorHandler_reply e (err\<lparr>stack := sa\<rparr>) = errorHandler_reply e (err\<lparr>stack := sb\<rparr>)"
    by (simp add: reply_ignores_stack)
  then show "snd (errorHandler e req (err\<lparr>stack := sa\<rparr>)) = snd (errorHandler e req (err\<lparr>stack := sb\<rparr>))"
    by (simp add: errorHandler_def)
qed

text \<open>
  The error of the handler's tests: its stack is in the body in development, absent in
  production, where replacing the stack does not change the response.
\<close>

theorem errorHandler_stack_only_in_development_witness:
  "spec_classify test_error = Unclassified
   \<and> (\<exists>c b. snd (errorHandler development get_posts_1 test_error) = Responded c b
            \<and> property b ''stack'' = Some (JStr ''Error stack trace''))
   \<and> (\<exists>c b. snd (errorHandler production get_posts_1 test_error) = Responded c b
            \<and> property b ''stack'' = None)
   \<and> snd (errorHandler production get_posts_1 (test_error\<lparr>stack := Some ''at secret.js:1''\<rparr>))
       = snd (errorHandler production get_posts_1 (test_error\<lparr>stack := None\<rparr>))"
proof -
  have u: "spec_classify test_error = Unclassified"
    by (simp add: spec_classify_def spec_precedence_def test_error_def)
  have d: "NODE_ENV development = Some ''development''" "stack test_error = Some ''Error stack trace''"
    by (simp_all add: development_def test_error_def)
  have p: "NODE_ENV production \<noteq> Some ''development''"
    by (simp add: production_def)
  show ?thesis
    using u d p
      errorHandler_stack_only_in_development [where err = test_error and e = development and req = get_posts_1]
      errorHandler_stack_only_in_development [where err = test_error and e = production and req = get_posts_1
        and sa = "Some ''at secret.js:1''" and sb = None]
    by (simp add: json_str_def)
qed

section \<open>The post controllers\<close>

text \<open>
  Claim C2, as the code has it.  An update whose body failed the route's validation is
  answered 400 with the validation errors, whoever sends it and whatever the store
  holds.  Take a post that the lookup finds and a requester that the authentication
  middleware stored.  An update whose body passed the validation, and any delete, is
  answered 403 exactly when the requester's id differs from the post's author id and the
  requester's role is not admin.  When the requester is the author or an admin, the
  operation goes on to the store: if the store accepts the write, the answer is 200 and
  the post is updated, respectively removed.
\<close>

theorem owner_or_admin_gate:
  "(validation_errors req \<noteq> [] \<longrightarrow>
      updatePost m req st
        = (Responded 400 (JObj [(''error'', JStr ''Validation failed''),
                                (''details'', JArr (validation_errors req))]), st))
   \<and> (find_error m (param_id req) = None \<and> posts st (param_id req) = Some p \<and> requester req = Some u \<longrightarrow>
        (validation_errors req = [] \<longrightarrow>
            (status_of (fst (updatePost m req st)) = Some 403)
              = (Some (author p) \<noteq> user_id u \<and> role u \<noteq> Some ''admin''))
        \<and> ((status_of (fst (deletePost m req st)) = Some 403)
              = (Some (author p) \<noteq> user_id u \<and> role u \<noteq> Some ''admin''))
        \<and> (validation_errors req = [] \<and> (Some (author p) = user_id u \<or> role u = Some ''admin'')
            \<and> cast_update (cast_path m) (update_of_body (body req)) = Inr v \<longrightarrow>
            status_of (fst (updatePost m req st)) = Some 200
            \<and> posts (snd (updatePost m req st)) (param_id req) = Some (written (clock m) v p))
        \<and> ((Some (author p) = user_id u \<or> role u = Some ''admin'') \<and> delete_error m (post_id p) = None \<longrightarrow>
            status_of (fst (deletePost m req st)) = Some 200
            \<and> posts (snd (deletePost m req st)) (post_id p) = None))"
proof (intro conjI impI)
  assume "validation_errors req \<noteq> []"
  then show "updatePost m req st
        = (Responded 400 (JObj [(''error'', JStr ''Validation failed''),
                                (''details'', JArr (validation_errors req))]), st)"
    by (simp add: updatePost_def obj_def)
next
  assume "find_error m (param_id req) = None \<and> posts st (param_id req) = Some p \<and> requester req = Some u"
    and "validation_errors req = []"
  then show "(status_of (fst (updatePost m req st)) = Some 403)
              = (Some (author p) \<noteq> user_id u \<and> role u \<noteq> Some ''admin'')"
    by (auto simp: updatePost_def findById_def findByIdAndUpdate_def status_of_def not_owner_nor_admin_def
          split: sum.splits option.splits)
next
  assume "find_error m (param_id req) = None \<and> posts st (param_id req) = Some p \<and> requester req = Some u"
  then show "(status_of (fst (deletePost m req st)) = Some 403)
              = (Some (author p) \<noteq> user_id u \<and> role u \<noteq> Some ''admin'')"
    by (auto simp: deletePost_def findById_def deleteOne_def status_of_def not_owner_nor_admin_def
          split: sum.splits option.splits)
next
  assume h: "find_error m (param_id req) = None \<and> posts st (param_id req) = Some p \<and> requester req = Some u"
    and g: "validation_errors req = [] \<and> (Some (author p) = user_id u \<or> role u = Some ''admin'')
            \<and> cast_update (cast_path m) (update_of_body (body req)) = Inr v"
  from h g show "status_of (fst (updatePost m req st)) = Some 200"
    by (auto simp: updatePost_def findById_def findByIdAndUpdate_def status_of_def not_owner_nor_admin_def)
  from h g show "posts (snd (updatePost m req st)) (param_id req) = Some (written (clock m) v p)"
    by (auto simp: updatePost_def findById_def findByIdAndUpdate_def status_of_def not_owner_nor_admin_def)
next
  assume h: "find_error m (param_id req) = None \<and> posts st (param_id req) = Some p \<and> requester req = Some u"
    and g: "(Some (author p) = user_id u \<or> role u = Some ''admin'') \<and> delete_error m (post_id p) = None"
  from h g show "status_of (fst (deletePost m req st)) = Some 200"
    by (auto simp: deletePost_def findById_def deleteOne_def status_of_def not_owner_nor_admin_def)
  from h g show "posts (snd (deletePost m req st)) (post_id p) = None"
    by (auto simp: deletePost_def findById_def deleteOne_def status_of_def not_owner_nor_admin_def)
qed

text \<open>
  On the sample store: an invalid update is answered 400 and changes nothing; another
  user is refused with 403 on update and on delete; the author and an admin get 200,
  and the deleted post is gone.
\<close>

theorem owner_or_admin_gate_witness:
  "updatePost accepting invalid_update_by_bob one_post
     = (Responded 400 (JObj [(''error'', JStr ''Validation failed''), (''details'', JArr [short_title])]), one_post)
   \<and> find_error accepting ''p1'' = None \<and> posts one_post ''p1'' = Some first_post
   \<and> status_of (fst (updatePost accepting (takeover_by_alice\<lparr> requester := Some bob \<rparr>) one_post)) = Some 403
   \<and> status_of (fst (deletePost accepting (takeover_by_alice\<lparr> requester := Some bob \<rparr>) one_post)) = Some 403
   \<and> status_of (fst (updatePost accepting takeover_by_alice one_post)) = Some 200
   \<and> status_of (fst (deletePost accepting takeover_by_alice one_post)) = Some 200
   \<and> posts (snd (deletePost accepting takeover_by_alice one_post)) ''p1'' = None
   \<and> status_of (fst (updatePost accepting (takeover_by_alice\<lparr> requester := Some (bob\<lparr> role := Some ''admin'' \<rparr>) \<rparr>) one_post))
       = Some 200
   \<and> status_of (fst (deletePost accepting (takeover_by_alice\<lparr> requester := Some (bob\<lparr> role := Some ''admin'' \<rparr>) \<rparr>) one_post))
       = Some 200"
proof -
  have e: "validation_errors invalid_update_by_bob = [short_title]" "validation_errors invalid_update_by_bob \<noteq> []"
    by (simp_all add: invalid_update_by_bob_def)
  have f: "find_error accepting ''p1'' = None"
    by (simp add: accepting_def)
  have p: "posts one_post ''p1'' = Some first_post"
    by (simp add: one_post_def)
  have i: "param_id takeover_by_alice = ''p1''" "validation_errors takeover_by_alice = []"
    "requester takeover_by_alice = Some alice"
    by (simp_all add: takeover_by_alice_def)
  have d: "delete_error accepting (post_id first_post) = None" "post_id first_post = ''p1''"
    by (simp_all add: accepting_def first_post_def)
  have w: "Some (author first_post) = user_id alice" "Some (author first_post) \<noteq> user_id bob"
    "role bob \<noteq> Some ''admin''"
    by (simp_all add: first_post_def alice_def bob_def)
  show ?thesis
    using e f p i d w accepting_casts [of "update_of_body (body takeover_by_alice)"]
      owner_or_admin_gate [where m = accepting and req = invalid_update_by_bob and st = one_post]
      owner_or_admin_gate [where m = accepting and req = "takeover_by_alice\<lparr> requester := Some bob \<rparr>"
        and st = one_post and p = first_post and u = bob]
      owner_or_admin_gate [where m = accepting and req = takeover_by_alice and st = one_post
        and p = first_post and u = alice and v = "update_of_body (body takeover_by_alice)"]
      owner_or_admin_gate [where m = accepting
        and req = "takeover_by_alice\<lparr> requester := Some (bob\<lparr> role := Some ''admin'' \<rparr>) \<rparr>"
        and st = one_post and p = first_post and u = "bob\<lparr> role := Some ''admin'' \<rparr>"
        and v = "update_of_body (body takeover_by_alice)"]
    by simp
qed

text \<open>
  An update with a title that is too short, sent by a user who is neither the author nor
  an admin: the validation errors are answered first, with 400, and not 403.
\<close>

theorem updatePost_validates_before_ownership:
  "find_error accepting (param_id invalid_update_by_bob) = None
   \<and> posts one_post (param_id invalid_update_by_bob) = Some first_post
   \<and> requester invalid_update_by_bob = Some bob
   \<and> Some (author first_post) \<noteq> user_id bob \<and> role bob \<noteq> Some ''admin''
   \<and> status_of (fst (updatePost accepting invalid_update_by_bob one_post)) = Some 400
   \<and> status_of (fst (updatePost accepting invalid_update_by_bob one_post)) \<noteq> Some 403"
  by (simp add: updatePost_def invalid_update_by_bob_def one_post_def first_post_def bob_def accepting_def
        status_of_def)




section \<open>The slug\<close>

text \<open>
  Claim C8.  The slug of a title is the title in lowercase with every run of
  non-alphanumeric characters replaced by one hyphen: the two titles of the tests give
  test-post-title; a title of alphanumeric characters only is just put in lowercase; and
  a run of non-alphanumeric characters between two parts of a title, each empty or
  bordering the run with an alphanumeric character, becomes a single hyphen between the
  slugs of the parts.
\<close>

theorem slug_of_title_collapses_runs:
  "slug_of_title ''Test Post! @#$ Title'' = ''test-post-title''
   \<and> slug_of_title ''Test    Post    Title'' = ''test-post-title''
   \<and> ((\<forall>c \<in> set w. alphanumeric (lowercase c)) \<longrightarrow> slug_of_title w = map lowercase w)
   \<and> (r \<noteq> [] \<and> (\<forall>c \<in> set r. \<not> alphanumeric (lowercase c))
        \<and> (a = [] \<or> alphanumeric (lowercase (last a))) \<and> (b = [] \<or> alphanumeric (lowercase (hd b))) \<longrightarrow>
        slug_of_title (a @ r @ b) = slug_of_title a @ ''-'' @ slug_of_title b)"
proof (intro conjI impI)
  show "slug_of_title ''Test Post! @#$ Title'' = ''test-post-title''"
    by (simp add: slug_of_title_def lowercase_def alphanumeric_def)
  show "slug_of_title ''Test    Post    Title'' = ''test-post-title''"
    by (simp add: slug_of_title_def lowercase_def alphanumeric_def)
next
  assume "\<forall>c \<in> set w. alphanumeric (lowercase c)"
  then show "slug_of_title w = map lowercase w"
    by (simp add: slug_of_title_def collapse_runs_word)
next
  assume h: "r \<noteq> [] \<and> (\<forall>c \<in> set r. \<not> alphanumeric (lowercase c))
        \<and> (a = [] \<or> alphanumeric (lowercase (last a))) \<and> (b = [] \<or> alphanumeric (lowercase (hd b)))"
  have "collapse_runs False (map lowercase a @ map lowercase r @ map lowercase b)
        = collapse_runs False (map lowercase a) @ ''-'' @ collapse_runs False (map lowercase b)"
  proof (rule collapse_runs_between)
    show "map lowercase r \<noteq> []" using h by simp
    show "\<forall>c \<in> set (map lowercase r). \<not> alphanumeric c" using h by simp
    show "map lowercase a = [] \<or> alphanumeric (last (map lowercase a))"
      using h by (cases "a = []") (simp_all add: last_map)
    show "map lowercase b = [] \<or> alphanumeric (hd (map lowercase b))"
      using h by (cases "b = []") (simp_all add: hd_map)
  qed
  then show "slug_of_title (a @ r @ b) = slug_of_title a @ ''-'' @ slug_of_title b"
    by (simp add: slug_of_title_def)
qed

text \<open>The title of the first test, cut at its run of punctuation.\<close>

theorem slug_of_title_collapses_runs_witness:
  "slug_of_title ''Title'' = map lowercase ''Title''
   \<and> filter (alphanumeric \<circ> lowercase) ''! @#$ '' = []
   \<and> alphanumeric (lowercase (last ''Test Post'')) \<and> alphanumeric (lowercase (hd ''Title''))
   \<and> slug_of_title (''Test Post'' @ ''! @#$ '' @ ''Title'') = slug_of_title ''Test Post'' @ ''-'' @ slug_of_title ''Title''"
proof -
  have a: "\<forall>c \<in> set ''Title''. alphanumeric (lowercase c)"
    by (simp add: alphanumeric_def lowercase_def)
  have b: "\<forall>c \<in> set ''! @#$ ''. \<not> alphanumeric (lowercase c)"
    by (simp add: alphanumeric_def lowercase_def)
  have c: "alphanumeric (lowercase (last ''Test Post''))" "alphanumeric (lowercase (hd ''Title''))"
    by (simp_all add: alphanumeric_def lowercase_def)
  have n: "''! @#$ '' \<noteq> []"
    by simp
  have f: "filter (alphanumeric \<circ> lowercase) ''! @#$ '' = []"
    by (simp add: alphanumeric_def lowercase_def)
  show ?thesis
    using a b c n f
      slug_of_title_collapses_runs [where w = "''Title''" and r = "''! @#$ ''" and a = "''Test Post''"
        and b = "''Title''"]
    by blast
qed

end
